theory Spec2Isabelle
  imports Main "HOL-Library.Word"
begin

unbundle bit_operations_syntax

section \<open>Bytes, Go results and the slices the code cuts\<close>

text \<open>
  The repository is Go. A byte is an 8-bit word, a \<^verbatim>\<open>[]byte\<close> and a Go string are byte
  lists, a \<^verbatim>\<open>uint16\<close> is a 16-bit word whose subtraction wraps. A Go string literal is
  written with \<open>str\<close>.
\<close>

type_synonym byte = "8 word"
type_synonym bytes = "byte list"

definition str :: "string \<Rightarrow> bytes" where
  "str s = map of_char s"

text \<open>
  A Go function either returns its results or panics. \<open>Returned\<close> carries the tuple
  of results; the panics are the run-time errors of the operations the code performs
  without a guard.
\<close>

datatype panic =
    NilDereference          \<comment> \<open>a field read through a nil pointer, a method of a nil interface\<close>
  | SliceBounds             \<comment> \<open>slice bounds out of range\<close>
  | InterfaceConversion     \<comment> \<open>a type assertion without the ok result, on another type\<close>

datatype 'a go = Returned 'a | Panic panic

datatype error =
    EOF                               \<comment> \<open>io.EOF\<close>
  | ErrUnexpectedEOF                  \<comment> \<open>io.ErrUnexpectedEOF\<close>
  | UnsupportedKDF bytes              \<comment> \<open>"KDF %v not supported"\<close>
  | PasswordRequired                  \<comment> \<open>"private key is password-protected, need a password for decryption"\<close>
  | MismatchedKdfCipher               \<comment> \<open>"invalid private key: KDF is 'none', but cipher is not 'none'"\<close>
  | UnsupportedCipher bytes           \<comment> \<open>"unsupported key encryption: %v"\<close>
  | UnsupportedPrivateKeyFormat       \<comment> \<open>"private key format not supported"\<close>
  | BadKeyLength                      \<comment> \<open>chacha20poly1305.New on a key that is not 32 bytes\<close>
  | Decrypt                           \<comment> \<open>the AEAD's Open: message authentication failed\<close>
  | LibraryError string               \<comment> \<open>any other error a library call reports\<close>

text \<open>
  \<^verbatim>\<open>copy(dst[:], src)\<close> into a fresh, zeroed array of \<open>n\<close> bytes: the first
  \<open>min n (len src)\<close> bytes are overwritten, the rest stay zero.
\<close>

definition copy_into :: "nat \<Rightarrow> bytes \<Rightarrow> bytes" where
  "copy_into n src = take n src @ replicate (n - length src) 0"

section \<open>The streaming writer (streaming/out.go)\<close>

subsection \<open>What the writer uses of its libraries\<close>

text \<open>
  Modelled from the spec: the constants of the package \<^verbatim>\<open>model/headers\<close>, which is not
  among the sources. The unencrypted segment size is 65 536 bytes, the magic literal is
  \<^verbatim>\<open>crypt4gh\<close>, the version is 1, both encryption methods and the packet type of the data
  encryption parameters are 0. The nonce size 12 and the overhead 16 are the constants of
  chacha20poly1305 and nacl/box.
\<close>

definition UnencryptedDataSegmentSize :: nat where
  "UnencryptedDataSegmentSize = 65536"

definition NonceSize :: nat where
  "NonceSize = 12"

definition KeySize :: nat where
  "KeySize = 32"

definition Overhead :: nat where
  "Overhead = 16"

definition MagicNumber :: bytes where
  "MagicNumber = str ''crypt4gh''"

definition Version1 :: "32 word" where
  "Version1 = 1"

definition X25519ChaCha20IETFPoly1305 :: "32 word" where
  "X25519ChaCha20IETFPoly1305 = 0"

definition ChaCha20IETFPoly1305 :: "32 word" where
  "ChaCha20IETFPoly1305 = 0"

definition DataEncryptionParameters :: "32 word" where
  "DataEncryptionParameters = 0"

record DataEncryptionParametersHeaderPacket =
  EncryptedSegmentSize :: nat
  PacketType :: "32 word"
  DataEncryptionMethod :: "32 word"
  DataKey :: bytes

record DataEditListHeaderPacket =
  NumberLengths :: "32 word"
  Lengths :: "64 word list"

datatype EncryptedHeaderPacket =
    ParametersPacket DataEncryptionParametersHeaderPacket
  | EditListPacket DataEditListHeaderPacket

record HeaderPacket =
  WriterPrivateKey :: bytes
  ReaderPublicKey :: bytes
  HeaderEncryptionMethod :: "32 word"
  EncryptedHeaderPacket :: EncryptedHeaderPacket

record Header =
  HeaderMagicNumber :: bytes
  HeaderVersion :: "32 word"
  HeaderPacketCount :: "32 word"
  HeaderPackets :: "HeaderPacket list"

record Segment =
  DataEncryptionParametersHeaderPackets :: "DataEncryptionParametersHeaderPacket list"
  UnencryptedData :: bytes

text \<open>
  The calls that leave the file: the random source, the two \<^verbatim>\<open>MarshalBinary\<close> methods
  (packages \<^verbatim>\<open>model/headers\<close> and \<^verbatim>\<open>model/body\<close>, not among the sources) and the
  \<^verbatim>\<open>Write\<close> of the underlying \<^verbatim>\<open>io.Writer\<close>, whose state is \<open>'w\<close>. Each may fail.
\<close>

record 'w stream_env =
  rand_Read :: "nat \<Rightarrow> error + bytes"
  Header_MarshalBinary :: "Header \<Rightarrow> error + bytes"
  Segment_MarshalBinary :: "Segment \<Rightarrow> error + bytes"
  Writer_Write :: "bytes \<Rightarrow> 'w \<Rightarrow> error + 'w"

text \<open>
  \<^verbatim>\<open>bytes.Buffer\<close> as the writer uses it (it only appends, so the read offset stays 0):
  the contents and the capacity of the backing array. \<^verbatim>\<open>Grow\<close> and \<^verbatim>\<open>WriteByte\<close>
  reslice when the bytes fit, and otherwise allocate \<open>2 * cap + n\<close> bytes (64 for a
  first, small allocation).
\<close>

record Buffer =
  buf :: bytes
  cap :: nat

definition Buffer_empty :: Buffer where
  "Buffer_empty = \<lparr>buf = [], cap = 0\<rparr>"

definition Buffer_Len :: "Buffer \<Rightarrow> nat" where
  "Buffer_Len b = length (buf b)"

definition Buffer_Cap :: "Buffer \<Rightarrow> nat" where
  "Buffer_Cap b = cap b"

definition Buffer_Grow :: "nat \<Rightarrow> Buffer \<Rightarrow> Buffer" where
  "Buffer_Grow n b =
     (if length (buf b) + n \<le> cap b then b
      else if cap b = 0 \<and> n \<le> 64 then b\<lparr>cap := 64\<rparr>
      else b\<lparr>cap := 2 * cap b + n\<rparr>)"

definition Buffer_WriteByte :: "byte \<Rightarrow> Buffer \<Rightarrow> Buffer" where
  "Buffer_WriteByte c b = (Buffer_Grow 1 b)\<lparr>buf := buf b @ [c]\<rparr>"

definition Buffer_Bytes :: "Buffer \<Rightarrow> bytes" where
  "Buffer_Bytes b = buf b"

definition Buffer_Reset :: "Buffer \<Rightarrow> Buffer" where
  "Buffer_Reset b = b\<lparr>buf := []\<rparr>"

subsection \<open>The writer\<close>

record 'w Crypt4GHWriter =
  writer :: 'w
  header :: Header
  dataEncryptionParametersHeaderPacket :: DataEncryptionParametersHeaderPacket
  buffer :: Buffer

text \<open>
  \<^verbatim>\<open>NewCrypt4GHWriter\<close>: draws the data key, builds the header packets, writes the
  marshalled header and reserves one segment of buffer. It returns the writer, or the
  first error; the state of the underlying \<^verbatim>\<open>io.Writer\<close> is the first component.
\<close>

definition NewCrypt4GHWriter ::
  "'w stream_env \<Rightarrow> 'w \<Rightarrow> bytes \<Rightarrow> bytes \<Rightarrow> DataEditListHeaderPacket option
     \<Rightarrow> error + 'w Crypt4GHWriter" where
  "NewCrypt4GHWriter env w writerPrivateKey readerPublicKey dataEditListHeaderPacket =
     (case rand_Read env KeySize of
        Inl err \<Rightarrow> Inl err
      | Inr rnd \<Rightarrow>
          let sharedKey = copy_into KeySize rnd;
              dep = \<lparr>EncryptedSegmentSize = NonceSize + UnencryptedDataSegmentSize + Overhead,
                     PacketType = DataEncryptionParameters,
                     DataEncryptionMethod = ChaCha20IETFPoly1305,
                     DataKey = sharedKey\<rparr>;
              headerPackets =
                [\<lparr>WriterPrivateKey = writerPrivateKey,
                  ReaderPublicKey = readerPublicKey,
                  HeaderEncryptionMethod = X25519ChaCha20IETFPoly1305,
                  EncryptedHeaderPacket = ParametersPacket dep\<rparr>];
              headerPackets =
                (case dataEditListHeaderPacket of
                   None \<Rightarrow> headerPackets
                 | Some del \<Rightarrow>
                     headerPackets @
                       [\<lparr>WriterPrivateKey = writerPrivateKey,
                         ReaderPublicKey = readerPublicKey,
                         HeaderEncryptionMethod = X25519ChaCha20IETFPoly1305,
                         EncryptedHeaderPacket = EditListPacket del\<rparr>]);
              hdr = \<lparr>HeaderMagicNumber = copy_into 8 MagicNumber,
                     HeaderVersion = Version1,
                     HeaderPacketCount = of_nat (length headerPackets),
                     HeaderPackets = headerPackets\<rparr>
          in (case Header_MarshalBinary env hdr of
                Inl err \<Rightarrow> Inl err
              | Inr binaryHeader \<Rightarrow>
                  (case Writer_Write env binaryHeader w of
                     Inl err \<Rightarrow> Inl err
                   | Inr w' \<Rightarrow>
                       Inr \<lparr>writer = w',
                            header = hdr,
                            dataEncryptionParametersHeaderPacket = dep,
                            buffer = Buffer_Grow UnencryptedDataSegmentSize Buffer_empty\<rparr>)))"

text \<open>
  \<^verbatim>\<open>flushBuffer\<close>: the segment takes the buffered bytes, the buffer is reset, the
  segment is marshalled and written. There is no test of the buffer's length. The result
  is the writer after the call and the error returned.
\<close>

definition flushBuffer ::
  "'w stream_env \<Rightarrow> 'w Crypt4GHWriter \<Rightarrow> 'w Crypt4GHWriter \<times> error option" where
  "flushBuffer env c =
     (let segment = \<lparr>DataEncryptionParametersHeaderPackets = [dataEncryptionParametersHeaderPacket c],
                      UnencryptedData = Buffer_Bytes (buffer c)\<rparr>;
          c = c\<lparr>buffer := Buffer_Reset (buffer c)\<rparr>
      in (case Segment_MarshalBinary env segment of
            Inl err \<Rightarrow> (c, Some err)
          | Inr marshalledSegment \<Rightarrow>
              (case Writer_Write env marshalledSegment (writer c) of
                 Inl err \<Rightarrow> (c, Some err)
               | Inr w' \<Rightarrow> (c\<lparr>writer := w'\<rparr>, None))))"

definition WriteByte ::
  "'w stream_env \<Rightarrow> 'w Crypt4GHWriter \<Rightarrow> byte \<Rightarrow> 'w Crypt4GHWriter \<times> error option" where
  "WriteByte env c b =
     (if Buffer_Len (buffer c) = Buffer_Cap (buffer c) then
        (case flushBuffer env c of
           (c', Some err) \<Rightarrow> (c', Some err)
         | (c', None) \<Rightarrow> (c'\<lparr>buffer := Buffer_WriteByte b (buffer c')\<rparr>, None))
      else (c\<lparr>buffer := Buffer_WriteByte b (buffer c)\<rparr>, None))"

text \<open>
  \<^verbatim>\<open>Write\<close>: the loop over \<open>p\<close>, with the count \<open>written\<close> of the bytes taken so
  far; it stops at the first error of \<^verbatim>\<open>WriteByte\<close>. The argument list is what is left
  of \<open>p\<close>.
\<close>

fun Write_loop ::
  "'w stream_env \<Rightarrow> 'w Crypt4GHWriter \<Rightarrow> nat \<Rightarrow> bytes
     \<Rightarrow> 'w Crypt4GHWriter \<times> nat \<times> error option" where
  "Write_loop env c written [] = (c, written, None)"
| "Write_loop env c written (b # rest) =
     (case WriteByte env c b of
        (c', Some err) \<Rightarrow> (c', written, Some err)
      | (c', None) \<Rightarrow> Write_loop env c' (Suc written) rest)"

definition Write ::
  "'w stream_env \<Rightarrow> 'w Crypt4GHWriter \<Rightarrow> bytes \<Rightarrow> 'w Crypt4GHWriter \<times> nat \<times> error option" where
  "Write env c p = Write_loop env c 0 p"

definition Close ::
  "'w stream_env \<Rightarrow> 'w Crypt4GHWriter \<Rightarrow> 'w Crypt4GHWriter \<times> error option" where
  "Close env c = flushBuffer env c"


text \<open>
  The callers of the writer: \<^verbatim>\<open>Write\<close> on each slice of \<open>ps\<close> in turn, stopping at the
  first error; and a whole session, from \<^verbatim>\<open>NewCrypt4GHWriter\<close> through the writes to
  \<^verbatim>\<open>Close\<close>, which yields what the underlying writer holds at the end.
\<close>

fun Write_all ::
  "'w stream_env \<Rightarrow> 'w Crypt4GHWriter \<Rightarrow> bytes list \<Rightarrow> 'w Crypt4GHWriter \<times> error option" where
  "Write_all env c [] = (c, None)"
| "Write_all env c (p # ps) =
     (case Write env c p of
        (c', n, Some err) \<Rightarrow> (c', Some err)
      | (c', n, None) \<Rightarrow> Write_all env c' ps)"

definition write_stream ::
  "'w stream_env \<Rightarrow> 'w \<Rightarrow> bytes \<Rightarrow> bytes \<Rightarrow> DataEditListHeaderPacket option \<Rightarrow> bytes list
     \<Rightarrow> error + 'w" where
  "write_stream env w writerPrivateKey readerPublicKey dataEditListHeaderPacket ps =
     (case NewCrypt4GHWriter env w writerPrivateKey readerPublicKey dataEditListHeaderPacket of
        Inl err \<Rightarrow> Inl err
      | Inr c \<Rightarrow>
          (case Write_all env c ps of
             (c', Some err) \<Rightarrow> Inl err
           | (c', None) \<Rightarrow>
               (case Close env c' of
                  (c'', Some err) \<Rightarrow> Inl err
                | (c'', None) \<Rightarrow> Inr (writer c''))))"

text \<open>
  The segmentation the spec describes, for comparison with the writer: the plaintext is
  cut into pieces of 65 536 bytes, the last piece taking what is left. On the empty
  plaintext the function follows the writer and yields one empty piece, where the spec
  has no piece at all; C5 below is about that case.
\<close>

function segments_of :: "bytes \<Rightarrow> bytes list" where
  "segments_of xs =
     (if length xs \<le> UnencryptedDataSegmentSize then [xs]
      else take UnencryptedDataSegmentSize xs #
           segments_of (drop UnencryptedDataSegmentSize xs))"
  by pat_completeness auto
termination
  by (relation "measure length") (auto simp: UnencryptedDataSegmentSize_def)

declare segments_of.simps [simp del]

text \<open>
  An environment to evaluate the writer in: the random source yields sevens, the header
  is marshalled as its magic number alone, a segment as a zero nonce, the plaintext
  itself and a zero tag (the layout \<open>nonce, ciphertext, tag\<close> of the spec, with the
  identity for a cipher), and the underlying writer records each slice it is given.
\<close>

definition demo_stream_env :: "bytes list stream_env" where
  "demo_stream_env =
     \<lparr>rand_Read = (\<lambda>n. Inr (replicate n 7)),
      Header_MarshalBinary = (\<lambda>h. Inr (HeaderMagicNumber h)),
      Segment_MarshalBinary =
        (\<lambda>s. Inr (replicate NonceSize 0 @ UnencryptedData s @ replicate Overhead 0)),
      Writer_Write = (\<lambda>d s. Inr (s @ [d]))\<rparr>"

text \<open>A writer in that environment that has written its header and holds three bytes.\<close>

definition demo_writer :: "bytes list Crypt4GHWriter" where
  "demo_writer =
     \<lparr>writer = [str ''crypt4gh''],
      header = \<lparr>HeaderMagicNumber = str ''crypt4gh'', HeaderVersion = Version1,
                HeaderPacketCount = 0, HeaderPackets = []\<rparr>,
      dataEncryptionParametersHeaderPacket =
        \<lparr>EncryptedSegmentSize = 65564, PacketType = DataEncryptionParameters,
         DataEncryptionMethod = ChaCha20IETFPoly1305, DataKey = replicate 32 7\<rparr>,
      buffer = \<lparr>buf = [1, 2, 3], cap = UnencryptedDataSegmentSize\<rparr>\<rparr>"

section \<open>The key codec (keys/keys.go)\<close>

subsection \<open>Constants and data of the file\<close>



definition magic :: bytes where
  "magic = str ''c4gh-v1''"

definition none :: bytes where
  "none = str ''none''"

definition supportedCipherName :: bytes where
  "supportedCipherName = str ''chacha20_poly1305''"

definition ed25519Algorithm :: "nat list" where
  "ed25519Algorithm = [1, 3, 101, 112]"

definition x25519Algorithm :: "nat list" where
  "x25519Algorithm = [1, 3, 101, 110]"

text \<open>The zero value of a \<^verbatim>\<open>[32]byte\<close>: what a named result holds until it is written.\<close>

definition zero_key :: bytes where
  "zero_key = replicate KeySize 0"

text \<open>
  \<^verbatim>\<open>pkix.AlgorithmIdentifier\<close> and the two structs the file unmarshals into. The
  parameters are kept as raw bytes.
\<close>

record AlgorithmIdentifier =
  Algorithm :: "nat list"
  Parameters :: bytes

record openSSLPrivateKey =
  Version :: int
  PrivateKeyAlgorithm :: AlgorithmIdentifier
  Payload :: bytes

record openSSLPublicKey =
  PublicKeyAlgorithm :: AlgorithmIdentifier
  PublicKeyPayload :: bytes

text \<open>
  A \<^verbatim>\<open>pem.Block\<close>. \<open>Bytes\<close> is a slice: \<open>Bytes_spare\<close> holds the bytes of its
  backing array beyond its length, which a reslice such as \<^verbatim>\<open>Bytes[:7]\<close> can reach
  (Go bounds the upper index of a slice expression by the capacity, not the length).
\<close>

record pem_Block =
  Type :: string
  Headers :: "(string \<times> string) list"
  Bytes :: bytes
  Bytes_spare :: bytes

text \<open>
  What \<^verbatim>\<open>ssh.ParseRawPrivateKey\<close> returns as \<^verbatim>\<open>interface{}\<close>: a pointer to an
  Ed25519 private key, such a key by value, or a key of another type.
\<close>

datatype ssh_key =
    Ed25519KeyPointer bytes
  | Ed25519KeyValue bytes
  | OtherKey

text \<open>
  The calls that leave the file, each a field: the packages ssh, extra25519, pem, asn1,
  the KDF registry \<^verbatim>\<open>kdf.KDFS\<close> (a map from the name to the \<^verbatim>\<open>Derive\<close> function of the
  KDF; the package is not among the sources), the AEAD of chacha20poly1305 (key, nonce,
  text; the additional data is always nil), \<^verbatim>\<open>rand.Reader\<close>, curve25519 and blake2b.
  \<^verbatim>\<open>ssh.ParseAuthorizedKey\<close> yields the key, of which the file only takes the
  marshalled form.
\<close>

record key_env =
  ssh_ParseRawPrivateKey :: "bytes \<Rightarrow> error + ssh_key"
  ssh_ParseRawPrivateKeyWithPassphrase :: "bytes \<Rightarrow> bytes \<Rightarrow> error + ssh_key"
  ssh_ParseAuthorizedKey :: "bytes \<Rightarrow> error + bytes"
  PrivateKeyToCurve25519 :: "bytes \<Rightarrow> bytes"
  PublicKeyToCurve25519 :: "bytes \<Rightarrow> bytes"
  pem_Decode :: "bytes \<Rightarrow> pem_Block option"
  pem_Encode :: "pem_Block \<Rightarrow> error + bytes"
  asn1_Unmarshal_PrivateKey :: "bytes \<Rightarrow> error + openSSLPrivateKey"
  asn1_Unmarshal_PublicKey :: "bytes \<Rightarrow> error + openSSLPublicKey"
  asn1_Marshal_bytes :: "bytes \<Rightarrow> error + bytes"
  asn1_Marshal_PrivateKey :: "openSSLPrivateKey \<Rightarrow> error + bytes"
  KDFS :: "bytes \<rightharpoonup> (nat \<Rightarrow> bytes \<Rightarrow> bytes \<Rightarrow> error + bytes)"
  aead_Seal :: "bytes \<Rightarrow> bytes \<Rightarrow> bytes \<Rightarrow> bytes"
  aead_Open :: "bytes \<Rightarrow> bytes \<Rightarrow> bytes \<Rightarrow> error + bytes"
  rand_Reader_Read :: "nat \<Rightarrow> error + bytes"
  ScalarBaseMult :: "bytes \<Rightarrow> bytes"
  X25519 :: "bytes \<Rightarrow> bytes \<Rightarrow> error + bytes"
  blake2b_Sum512 :: "bytes \<Rightarrow> bytes"

text \<open>
  \<^verbatim>\<open>chacha20poly1305.New\<close> accepts a key of exactly 32 bytes; the AEAD it returns is
  represented by its key.
\<close>

definition chacha20poly1305_New :: "bytes \<Rightarrow> error + bytes" where
  "chacha20poly1305_New key = (if length key = KeySize then Inr key else Inl BadKeyLength)"

text \<open>
  A passphrase is a \<^verbatim>\<open>[]byte\<close> that the code compares with nil: \<open>None\<close> is nil.
  Passed on to a library, a nil slice is the empty slice.
\<close>

definition slice_bytes :: "bytes option \<Rightarrow> bytes" where
  "slice_bytes s = (case s of None \<Rightarrow> [] | Some bs \<Rightarrow> bs)"

subsection \<open>encoding/binary over a bytes.Buffer\<close>

text \<open>
  \<^verbatim>\<open>binary.Read\<close> fills its target with \<^verbatim>\<open>io.ReadFull\<close>: \<open>n\<close> bytes are taken from
  the buffer; with fewer left the error is \<^verbatim>\<open>io.EOF\<close> when none is left and
  \<^verbatim>\<open>io.ErrUnexpectedEOF\<close> otherwise. Reading no bytes succeeds. The result is the value
  and the rest of the buffer.
\<close>

definition binary_Read_bytes :: "nat \<Rightarrow> bytes \<Rightarrow> error + (bytes \<times> bytes)" where
  "binary_Read_bytes n b =
     (if n \<le> length b then Inr (take n b, drop n b)
      else Inl (if b = [] then EOF else ErrUnexpectedEOF))"

definition BigEndian_Uint16 :: "bytes \<Rightarrow> 16 word" where
  "BigEndian_Uint16 b = ucast (b ! 1) OR push_bit 8 (ucast (b ! 0))"

definition BigEndian_Uint32 :: "bytes \<Rightarrow> 32 word" where
  "BigEndian_Uint32 b =
     ucast (b ! 3) OR push_bit 8 (ucast (b ! 2)) OR push_bit 16 (ucast (b ! 1))
       OR push_bit 24 (ucast (b ! 0))"

definition BigEndian_PutUint16 :: "16 word \<Rightarrow> bytes" where
  "BigEndian_PutUint16 v = [ucast (drop_bit 8 v), ucast v]"

definition binary_Read_uint16 :: "bytes \<Rightarrow> error + (16 word \<times> bytes)" where
  "binary_Read_uint16 b =
     (case binary_Read_bytes 2 b of
        Inl err \<Rightarrow> Inl err
      | Inr (bs, rest) \<Rightarrow> Inr (BigEndian_Uint16 bs, rest))"

definition binary_Read_uint32 :: "bytes \<Rightarrow> error + (32 word \<times> bytes)" where
  "binary_Read_uint32 b =
     (case binary_Read_bytes 4 b of
        Inl err \<Rightarrow> Inl err
      | Inr (bs, rest) \<Rightarrow> Inr (BigEndian_Uint32 bs, rest))"

subsection \<open>Reading a private key\<close>

text \<open>
  \<^verbatim>\<open>readCrypt4GHPrivateKey\<close>. The result is the pair \<open>(privateKey, err)\<close>; every
  early return leaves the named result \<open>privateKey\<close> at its zero value. The reads
  follow the source one by one; \<open>b\<close> is what is left of the buffer. The salt is made
  with \<^verbatim>\<open>length-4\<close> in \<^verbatim>\<open>uint16\<close>, which wraps below 4. The payload is made with
  \<^verbatim>\<open>make([]byte, length)\<close>, so its capacity is its length and \<^verbatim>\<open>payload[:12]\<close>
  panics on a shorter one.
\<close>

definition readCrypt4GHPrivateKey ::
  "key_env \<Rightarrow> bytes \<Rightarrow> bytes option \<Rightarrow> (bytes \<times> error option) go" where
  "readCrypt4GHPrivateKey env pemBytes passPhrase =
     (if length pemBytes < length magic then Panic SliceBounds
      else
       (case binary_Read_uint16 (drop (length magic) pemBytes) of
          Inl err \<Rightarrow> Returned (zero_key, Some err)
        | Inr (len, b) \<Rightarrow>
       (case binary_Read_bytes (unat len) b of
          Inl err \<Rightarrow> Returned (zero_key, Some err)
        | Inr (kdfName, b) \<Rightarrow>
       (case KDFS env kdfName of
          None \<Rightarrow> Returned (zero_key, Some (UnsupportedKDF kdfName))
        | Some kdfunction \<Rightarrow>
       (case (if kdfName \<noteq> str ''none'' then
                (case passPhrase of
                   None \<Rightarrow> Inl PasswordRequired
                 | Some _ \<Rightarrow>
                (case binary_Read_uint16 b of
                   Inl err \<Rightarrow> Inl err
                 | Inr (len, b) \<Rightarrow>
                (case binary_Read_uint32 b of
                   Inl err \<Rightarrow> Inl err
                 | Inr (rounds, b) \<Rightarrow>
                (case binary_Read_bytes (unat (len - 4)) b of
                   Inl err \<Rightarrow> Inl err
                 | Inr (salt, b) \<Rightarrow> Inr (rounds, salt, b)))))
              else Inr (0, [], b)) of
          Inl err \<Rightarrow> Returned (zero_key, Some err)
        | Inr (rounds, salt, b) \<Rightarrow>
       (case binary_Read_uint16 b of
          Inl err \<Rightarrow> Returned (zero_key, Some err)
        | Inr (len, b) \<Rightarrow>
       (case binary_Read_bytes (unat len) b of
          Inl err \<Rightarrow> Returned (zero_key, Some err)
        | Inr (ciphername, b) \<Rightarrow>
       (case binary_Read_uint16 b of
          Inl err \<Rightarrow> Returned (zero_key, Some err)
        | Inr (len, b) \<Rightarrow>
       (case binary_Read_bytes (unat len) b of
          Inl err \<Rightarrow> Returned (zero_key, Some err)
        | Inr (payload, b) \<Rightarrow>
            if kdfName = none then
              (if ciphername \<noteq> none then Returned (zero_key, Some MismatchedKdfCipher)
               else Returned (copy_into KeySize payload, None))
            else if ciphername \<noteq> supportedCipherName then
              Returned (zero_key, Some (UnsupportedCipher ciphername))
            else
              (case kdfunction (unat rounds) (slice_bytes passPhrase) salt of
                 Inl err \<Rightarrow> Returned (zero_key, Some err)
               | Inr derivedKey \<Rightarrow>
              (case chacha20poly1305_New derivedKey of
                 Inl err \<Rightarrow> Returned (zero_key, Some err)
               | Inr aead \<Rightarrow>
                   if length payload < NonceSize then Panic SliceBounds
                   else
                     (case aead_Open env aead (take NonceSize payload) (drop NonceSize payload) of
                        Inl err \<Rightarrow> Returned (zero_key, Some err)
                      | Inr decryptedPrivateKey \<Rightarrow>
                          Returned (copy_into KeySize decryptedPrivateKey, None)))))))))))))"

text \<open>
  \<^verbatim>\<open>ReadPrivateKey\<close>. The reader is given by what \<^verbatim>\<open>ioutil.ReadAll\<close> makes of it.
  A key that the ssh package parses is converted if it is an Ed25519 key; the second
  type assertion has no ok result and panics on any other key. \<^verbatim>\<open>pem.Decode\<close> returns
  a nil block on input that holds no PEM block, and \<^verbatim>\<open>block.Bytes\<close> is read without a
  test. The trailing 32 bytes and the leading 7 bytes of the body are sliced without a
  test of its length.
\<close>

definition ReadPrivateKey ::
  "key_env \<Rightarrow> error + bytes \<Rightarrow> bytes option \<Rightarrow> (bytes \<times> error option) go" where
  "ReadPrivateKey env reader passPhrase =
     (case reader of
        Inl err \<Rightarrow> Returned (zero_key, Some err)
      | Inr allBytes \<Rightarrow>
     (case (case passPhrase of
              None \<Rightarrow> ssh_ParseRawPrivateKey env allBytes
            | Some pp \<Rightarrow> ssh_ParseRawPrivateKeyWithPassphrase env allBytes pp) of
        Inr key \<Rightarrow>
          (case key of
             Ed25519KeyPointer edPrivateKey \<Rightarrow>
               Returned (PrivateKeyToCurve25519 env (copy_into (KeySize * 2) edPrivateKey), None)
           | Ed25519KeyValue edPrivateKey \<Rightarrow>
               Returned (PrivateKeyToCurve25519 env (copy_into (KeySize * 2) edPrivateKey), None)
           | OtherKey \<Rightarrow> Panic InterfaceConversion)
      | Inl _ \<Rightarrow>
     (case pem_Decode env allBytes of
        None \<Rightarrow> Panic NilDereference
      | Some block \<Rightarrow>
          let unmarshalled = asn1_Unmarshal_PrivateKey env (Bytes block);
              oid = (case unmarshalled of
                       Inl _ \<Rightarrow> None
                     | Inr k \<Rightarrow> Some (Algorithm (PrivateKeyAlgorithm k)))
          in
            if oid = Some ed25519Algorithm then
              (if length (Bytes block) < KeySize then Panic SliceBounds
               else Returned
                      (PrivateKeyToCurve25519 env
                         (copy_into (KeySize * 2)
                            (drop (length (Bytes block) - KeySize) (Bytes block))), None))
            else if oid = Some x25519Algorithm then
              (if length (Bytes block) < KeySize then Panic SliceBounds
               else Returned
                      (copy_into KeySize (drop (length (Bytes block) - KeySize) (Bytes block)),
                       None))
            else if length (Bytes block) + length (Bytes_spare block) < 7 then Panic SliceBounds
            else if take 7 (Bytes block @ Bytes_spare block) = magic then
              readCrypt4GHPrivateKey env (Bytes block) passPhrase
            else Returned (zero_key, Some UnsupportedPrivateKeyFormat))))"

subsection \<open>Reading a public key\<close>

text \<open>
  \<^verbatim>\<open>ReadPublicKey\<close>: an authorized_keys entry, then a PEM block read as a
  SubjectPublicKeyInfo, then the trailing 32 bytes of the PEM body whatever it holds.
  There is no error return after the read of the input.
\<close>

definition ReadPublicKey ::
  "key_env \<Rightarrow> error + bytes \<Rightarrow> (bytes \<times> error option) go" where
  "ReadPublicKey env reader =
     (case reader of
        Inl err \<Rightarrow> Returned (zero_key, Some err)
      | Inr allBytes \<Rightarrow>
     (case ssh_ParseAuthorizedKey env allBytes of
        Inr marshalledKey \<Rightarrow>
          (if length marshalledKey < KeySize then Panic SliceBounds
           else Returned
                  (PublicKeyToCurve25519 env
                     (copy_into KeySize (drop (length marshalledKey - KeySize) marshalledKey)),
                   None))
      | Inl _ \<Rightarrow>
     (case pem_Decode env allBytes of
        None \<Rightarrow> Panic NilDereference
      | Some block \<Rightarrow>
          let unmarshalled = asn1_Unmarshal_PublicKey env (Bytes block);
              oid = (case unmarshalled of
                       Inl _ \<Rightarrow> None
                     | Inr k \<Rightarrow> Some (Algorithm (PublicKeyAlgorithm k)))
          in
            if oid = Some ed25519Algorithm then
              (if length (Bytes block) < KeySize then Panic SliceBounds
               else Returned
                      (PublicKeyToCurve25519 env
                         (copy_into KeySize
                            (drop (length (Bytes block) - KeySize) (Bytes block))), None))
            else if oid = Some x25519Algorithm then
              (if length (Bytes block) < KeySize then Panic SliceBounds
               else Returned
                      (copy_into KeySize (drop (length (Bytes block) - KeySize) (Bytes block)),
                       None))
            else if length (Bytes block) < KeySize then Panic SliceBounds
            else Returned
                   (copy_into KeySize (drop (length (Bytes block) - KeySize) (Bytes block)),
                    None))))"

subsection \<open>Writing a private key\<close>



subsection \<open>Derivations\<close>

definition DerivePublicKey :: "key_env \<Rightarrow> bytes \<Rightarrow> bytes" where
  "DerivePublicKey env privateKey = ScalarBaseMult env privateKey"

definition generateSharedKey :: "key_env \<Rightarrow> bytes \<Rightarrow> bytes \<Rightarrow> bytes \<Rightarrow> error + bytes" where
  "generateSharedKey env diffieHellmanKey readerPublicKey writerPublicKey =
     (let combination = diffieHellmanKey @ readerPublicKey;
          combination = combination @ writerPublicKey;
          hash = blake2b_Sum512 env combination;
          sharedKey = take KeySize hash
      in Inr sharedKey)"

definition GenerateReaderSharedKey :: "key_env \<Rightarrow> bytes \<Rightarrow> bytes \<Rightarrow> error + bytes" where
  "GenerateReaderSharedKey env privateKey publicKey =
     (let derivedPublicKey = DerivePublicKey env privateKey in
      case X25519 env privateKey publicKey of
        Inl err \<Rightarrow> Inl err
      | Inr diffieHellmanKey \<Rightarrow> generateSharedKey env diffieHellmanKey derivedPublicKey publicKey)"

definition GenerateWriterSharedKey :: "key_env \<Rightarrow> bytes \<Rightarrow> bytes \<Rightarrow> error + bytes" where
  "GenerateWriterSharedKey env privateKey publicKey =
     (let derivedPublicKey = DerivePublicKey env privateKey in
      case X25519 env privateKey publicKey of
        Inl err \<Rightarrow> Inl err
      | Inr diffieHellmanKey \<Rightarrow> generateSharedKey env diffieHellmanKey publicKey derivedPublicKey)"

subsection \<open>The layout of a Crypt4GH private key, as the spec gives it\<close>

text \<open>
  For comparison with the reader and the writer: the body of the PEM block is the magic
  \<^verbatim>\<open>c4gh-v1\<close> and then fields, each with its length as a big-endian \<^verbatim>\<open>u16\<close> in
  front: the KDF name, the rounds and the salt (left out when the KDF is \<^verbatim>\<open>none\<close>), the
  cipher name, the payload.
\<close>

definition length_prefixed :: "bytes \<Rightarrow> bytes" where
  "length_prefixed x = BigEndian_PutUint16 (of_nat (length x)) @ x"

definition crypt4gh_key_body :: "bytes \<Rightarrow> bytes option \<Rightarrow> bytes \<Rightarrow> bytes \<Rightarrow> bytes" where
  "crypt4gh_key_body kdfname rounds_and_salt ciphername payload =
     magic @ length_prefixed kdfname
       @ (case rounds_and_salt of None \<Rightarrow> [] | Some rs \<Rightarrow> length_prefixed rs)
       @ length_prefixed ciphername @ length_prefixed payload"

subsection \<open>An environment to evaluate the key codec in\<close>

text \<open>
  Small stand-ins for the libraries, so that the functions above can be run on concrete
  bytes. The armour is five dashes in front of the body, without base64 or label. The
  DER is that of the two structs for names of the form 1.3.a.b and lengths below 128.
  The KDF named \<^verbatim>\<open>scrypt\<close> pads the password and the salt to 32 bytes, the AEAD is the
  identity with the first 16 bytes of the key as its tag, the key agreement adds the two
  keys byte by byte, the hash pads to 64 bytes. The ssh package finds no key.
\<close>

definition demo_pem_Encode :: "pem_Block \<Rightarrow> error + bytes" where
  "demo_pem_Encode b = Inr (str ''-----'' @ Bytes b)"

definition demo_pem_Decode :: "bytes \<Rightarrow> pem_Block option" where
  "demo_pem_Decode bs =
     (if take 5 bs = str ''-----''
      then Some \<lparr>Type = [], Headers = [], Bytes = drop 5 bs, Bytes_spare = []\<rparr>
      else None)"

definition demo_asn1_Marshal_bytes :: "bytes \<Rightarrow> error + bytes" where
  "demo_asn1_Marshal_bytes bs = Inr ([4, of_nat (length bs)] @ bs)"

definition demo_asn1_Marshal_PrivateKey :: "openSSLPrivateKey \<Rightarrow> error + bytes" where
  "demo_asn1_Marshal_PrivateKey k =
     Inr ([48, of_nat (12 + length (Payload k)), 2, 1, of_int (Version k), 48, 5, 6, 3, 43,
           of_nat (Algorithm (PrivateKeyAlgorithm k) ! 2),
           of_nat (Algorithm (PrivateKeyAlgorithm k) ! 3),
           4, of_nat (length (Payload k))] @ Payload k)"

definition demo_asn1_Unmarshal_PrivateKey :: "bytes \<Rightarrow> error + openSSLPrivateKey" where
  "demo_asn1_Unmarshal_PrivateKey bs =
     (if 14 \<le> length bs \<and> bs ! 0 = 48 \<and> take 2 (drop 2 bs) = [2, 1]
         \<and> take 5 (drop 5 bs) = [48, 5, 6, 3, 43] \<and> bs ! 12 = 4
         \<and> 14 + unat (bs ! 13) \<le> length bs
      then Inr \<lparr>Version = uint (bs ! 4),
                PrivateKeyAlgorithm =
                  \<lparr>Algorithm = [1, 3, unat (bs ! 10), unat (bs ! 11)], Parameters = []\<rparr>,
                Payload = take (unat (bs ! 13)) (drop 14 bs)\<rparr>
      else Inl (LibraryError ''asn1: structure error''))"

definition demo_asn1_Unmarshal_PublicKey :: "bytes \<Rightarrow> error + openSSLPublicKey" where
  "demo_asn1_Unmarshal_PublicKey bs =
     (if 11 \<le> length bs \<and> bs ! 0 = 48 \<and> take 5 (drop 2 bs) = [48, 5, 6, 3, 43]
         \<and> bs ! 9 = 3 \<and> 11 + unat (bs ! 10) \<le> length bs
      then Inr \<lparr>PublicKeyAlgorithm =
                  \<lparr>Algorithm = [1, 3, unat (bs ! 7), unat (bs ! 8)], Parameters = []\<rparr>,
                PublicKeyPayload = take (unat (bs ! 10)) (drop 11 bs)\<rparr>
      else Inl (LibraryError ''asn1: structure error''))"

definition demo_scrypt :: "nat \<Rightarrow> bytes \<Rightarrow> bytes \<Rightarrow> error + bytes" where
  "demo_scrypt rounds password salt = Inr (copy_into 32 (password @ salt))"

definition demo_KDFS :: "bytes \<rightharpoonup> (nat \<Rightarrow> bytes \<Rightarrow> bytes \<Rightarrow> error + bytes)" where
  "demo_KDFS name =
     (if name = str ''scrypt'' then Some demo_scrypt
      else if name = str ''none'' then Some demo_scrypt
      else None)"

definition demo_Seal :: "bytes \<Rightarrow> bytes \<Rightarrow> bytes \<Rightarrow> bytes" where
  "demo_Seal key nonce plaintext = plaintext @ copy_into 16 key"

definition demo_Open :: "bytes \<Rightarrow> bytes \<Rightarrow> bytes \<Rightarrow> error + bytes" where
  "demo_Open key nonce ciphertext =
     (if 16 \<le> length ciphertext
         \<and> drop (length ciphertext - 16) ciphertext = copy_into 16 key
      then Inr (take (length ciphertext - 16) ciphertext)
      else Inl Decrypt)"

definition demo_X25519 :: "bytes \<Rightarrow> bytes \<Rightarrow> error + bytes" where
  "demo_X25519 scalar point = Inr (map2 (+) scalar point)"

definition demo_key_env :: key_env where
  "demo_key_env =
     \<lparr>ssh_ParseRawPrivateKey = (\<lambda>bs. Inl (LibraryError ''ssh: no key found'')),
      ssh_ParseRawPrivateKeyWithPassphrase = (\<lambda>bs pp. Inl (LibraryError ''ssh: no key found'')),
      ssh_ParseAuthorizedKey = (\<lambda>bs. Inl (LibraryError ''ssh: no key found'')),
      PrivateKeyToCurve25519 = take 32,
      PublicKeyToCurve25519 = id,
      pem_Decode = demo_pem_Decode,
      pem_Encode = demo_pem_Encode,
      asn1_Unmarshal_PrivateKey = demo_asn1_Unmarshal_PrivateKey,
      asn1_Unmarshal_PublicKey = demo_asn1_Unmarshal_PublicKey,
      asn1_Marshal_bytes = demo_asn1_Marshal_bytes,
      asn1_Marshal_PrivateKey = demo_asn1_Marshal_PrivateKey,
      KDFS = demo_KDFS,
      aead_Seal = demo_Seal,
      aead_Open = demo_Open,
      rand_Reader_Read = (\<lambda>n. Inr (replicate n 9)),
      ScalarBaseMult = id,
      X25519 = demo_X25519,
      blake2b_Sum512 = copy_into 64\<rparr>"

section \<open>The writer cuts the plaintext into segments\<close>

lemma segments_of_short: "length xs \<le> UnencryptedDataSegmentSize \<Longrightarrow> segments_of xs = [xs]"
  by (subst segments_of.simps) simp

lemma segments_of_long:
  "length b = UnencryptedDataSegmentSize \<Longrightarrow> xs \<noteq> [] \<Longrightarrow> segments_of (b @ xs) = b # segments_of xs"
  by (subst segments_of.simps) (cases xs; simp)

lemma segments_of_not_Nil: "segments_of xs \<noteq> []"
  by (subst segments_of.simps) simp

lemma concat_segments_of: "concat (segments_of xs) = xs"
  by (induction xs rule: segments_of.induct) (subst segments_of.simps, simp)

lemma butlast_segments_of_full:
  "s \<in> set (butlast (segments_of xs)) \<Longrightarrow> length s = UnencryptedDataSegmentSize"
proof (induction xs rule: segments_of.induct)
  case (1 xs)
  show ?case
  proof (cases "length xs \<le> UnencryptedDataSegmentSize")
    case True
    with 1(2) show ?thesis by (simp add: segments_of_short)
  next
    case False
    then have eq: "segments_of xs = take UnencryptedDataSegmentSize xs # segments_of (drop UnencryptedDataSegmentSize xs)"
      by (subst segments_of.simps) simp
    from 1(2) have "s = take UnencryptedDataSegmentSize xs \<or> s \<in> set (butlast (segments_of (drop UnencryptedDataSegmentSize xs)))"
      by (simp add: eq segments_of_not_Nil)
    then show ?thesis using 1(1) False by auto
  qed
qed


lemma length_last_segments_of:
  "length (last (segments_of xs)) \<le> UnencryptedDataSegmentSize"
proof (induction xs rule: segments_of.induct)
  case (1 xs)
  show ?case
  proof (cases "length xs \<le> UnencryptedDataSegmentSize")
    case True
    then show ?thesis by (simp add: segments_of_short)
  next
    case False
    then have eq: "segments_of xs = take UnencryptedDataSegmentSize xs # segments_of (drop UnencryptedDataSegmentSize xs)"
      by (subst segments_of.simps) simp
    show ?thesis using 1 False by (simp add: eq segments_of_not_Nil)
  qed
qed

lemma last_segments_of_not_Nil:
  "xs \<noteq> [] \<Longrightarrow> last (segments_of xs) \<noteq> []"
proof (induction xs rule: segments_of.induct)
  case (1 xs)
  show ?case
  proof (cases "length xs \<le> UnencryptedDataSegmentSize")
    case True
    with 1(2) show ?thesis by (simp add: segments_of_short)
  next
    case False
    then have eq: "segments_of xs = take UnencryptedDataSegmentSize xs # segments_of (drop UnencryptedDataSegmentSize xs)"
      by (subst segments_of.simps) simp
    from False have "drop UnencryptedDataSegmentSize xs \<noteq> []" by simp
    with 1(1) False show ?thesis by (simp add: eq segments_of_not_Nil)
  qed
qed

lemma flushBuffer_ok:
  assumes "Segment_MarshalBinary env
             \<lparr>DataEncryptionParametersHeaderPackets = [dataEncryptionParametersHeaderPacket c],
              UnencryptedData = buf (buffer c)\<rparr> = Inr ms"
    and "Writer_Write env ms (writer c) = Inr w'"
  shows "flushBuffer env c = (c\<lparr>buffer := (buffer c)\<lparr>buf := []\<rparr>, writer := w'\<rparr>, None)"
  using assms by (simp add: flushBuffer_def Buffer_Bytes_def Buffer_Reset_def)

lemma Buffer_WriteByte_fits:
  "length b < n \<Longrightarrow> Buffer_WriteByte x \<lparr>buf = b, cap = n\<rparr> = \<lparr>buf = b @ [x], cap = n\<rparr>"
  by (simp add: Buffer_WriteByte_def Buffer_Grow_def)

lemma Write_loop_segments:
  fixes env :: "bytes list stream_env"
  assumes marshal: "\<And>d. Segment_MarshalBinary env
             \<lparr>DataEncryptionParametersHeaderPackets = [dep], UnencryptedData = d\<rparr> = Inr (m d)"
    and sink: "\<And>d s. Writer_Write env d s = Inr (s @ [d])"
  shows "length b \<le> UnencryptedDataSegmentSize \<Longrightarrow>
         dataEncryptionParametersHeaderPacket c = dep \<Longrightarrow>
         buffer c = \<lparr>buf = b, cap = UnencryptedDataSegmentSize\<rparr> \<Longrightarrow>
         Write_loop env c n p =
           (c\<lparr>writer := writer c @ map m (butlast (segments_of (b @ p))),
              buffer := \<lparr>buf = last (segments_of (b @ p)), cap = UnencryptedDataSegmentSize\<rparr>\<rparr>,
            n + length p, None)"
proof (induction p arbitrary: b c n)
  case Nil
  then show ?case by (simp add: segments_of_short)
next
  case (Cons x p)
  show ?case
  proof (cases "length b = UnencryptedDataSegmentSize")
    case True
    define c' where "c' = c\<lparr>buffer := \<lparr>buf = [x], cap = UnencryptedDataSegmentSize\<rparr>,
                             writer := writer c @ [m b]\<rparr>"
    have fl: "flushBuffer env c = (c\<lparr>buffer := (buffer c)\<lparr>buf := []\<rparr>, writer := writer c @ [m b]\<rparr>, None)"
      by (rule flushBuffer_ok) (simp_all add: Cons.prems marshal sink)
    have wb: "WriteByte env c x = (c', None)"
      using True Cons.prems
      by (simp add: WriteByte_def Buffer_Len_def Buffer_Cap_def fl c'_def
            Buffer_WriteByte_fits UnencryptedDataSegmentSize_def)
    have ih: "Write_loop env c' (Suc n) p =
           (c'\<lparr>writer := writer c' @ map m (butlast (segments_of ([x] @ p))),
              buffer := \<lparr>buf = last (segments_of ([x] @ p)), cap = UnencryptedDataSegmentSize\<rparr>\<rparr>,
            Suc n + length p, None)"
      by (rule Cons.IH) (simp_all add: c'_def Cons.prems UnencryptedDataSegmentSize_def)
    have seg: "segments_of (b @ x # p) = b # segments_of (x # p)"
      using True by (simp add: segments_of_long)
    show ?thesis
      by (simp add: wb ih seg segments_of_not_Nil) (simp add: c'_def)
  next
    case False
    with Cons.prems have lt: "length b < UnencryptedDataSegmentSize" by simp
    define c' where "c' = c\<lparr>buffer := \<lparr>buf = b @ [x], cap = UnencryptedDataSegmentSize\<rparr>\<rparr>"
    have wb: "WriteByte env c x = (c', None)"
      using False lt Cons.prems
      by (simp add: WriteByte_def Buffer_Len_def Buffer_Cap_def c'_def Buffer_WriteByte_fits)
    have ih: "Write_loop env c' (Suc n) p =
           (c'\<lparr>writer := writer c' @ map m (butlast (segments_of ((b @ [x]) @ p))),
              buffer := \<lparr>buf = last (segments_of ((b @ [x]) @ p)), cap = UnencryptedDataSegmentSize\<rparr>\<rparr>,
            Suc n + length p, None)"
      by (rule Cons.IH) (use lt in \<open>simp_all add: c'_def Cons.prems\<close>)
    show ?thesis
      by (simp add: wb ih) (simp add: c'_def)
  qed
qed


lemma segments_of_append:
  "butlast (segments_of xs) @ segments_of (last (segments_of xs) @ ys) = segments_of (xs @ ys)"
proof (induction xs rule: segments_of.induct)
  case (1 xs)
  show ?case
  proof (cases "length xs \<le> UnencryptedDataSegmentSize")
    case True
    then show ?thesis by (simp add: segments_of_short)
  next
    case False
    then have eq: "segments_of xs = take UnencryptedDataSegmentSize xs # segments_of (drop UnencryptedDataSegmentSize xs)"
      by (subst segments_of.simps) simp
    from False have eq2: "segments_of (xs @ ys) =
        take UnencryptedDataSegmentSize xs # segments_of (drop UnencryptedDataSegmentSize xs @ ys)"
      by (subst segments_of.simps) simp
    show ?thesis using 1 False by (simp add: eq eq2 segments_of_not_Nil)
  qed
qed

lemma butlast_segments_of_append:
  "butlast (segments_of xs) @ butlast (segments_of (last (segments_of xs) @ ys)) = butlast (segments_of (xs @ ys))"
  using segments_of_append [of xs ys, THEN arg_cong, of butlast]
  by (simp add: butlast_append segments_of_not_Nil)

lemma last_segments_of_append:
  "last (segments_of (last (segments_of xs) @ ys)) = last (segments_of (xs @ ys))"
  using segments_of_append [of xs ys, THEN arg_cong, of last]
  by (simp add: segments_of_not_Nil)

lemma Write_all_segments:
  fixes env :: "bytes list stream_env"
  assumes marshal: "\<And>d. Segment_MarshalBinary env
             \<lparr>DataEncryptionParametersHeaderPackets = [dep], UnencryptedData = d\<rparr> = Inr (m d)"
    and sink: "\<And>d s. Writer_Write env d s = Inr (s @ [d])"
  shows "length b \<le> UnencryptedDataSegmentSize \<Longrightarrow>
         dataEncryptionParametersHeaderPacket c = dep \<Longrightarrow>
         buffer c = \<lparr>buf = b, cap = UnencryptedDataSegmentSize\<rparr> \<Longrightarrow>
         Write_all env c ps =
           (c\<lparr>writer := writer c @ map m (butlast (segments_of (b @ concat ps))),
              buffer := \<lparr>buf = last (segments_of (b @ concat ps)), cap = UnencryptedDataSegmentSize\<rparr>\<rparr>,
            None)"
proof (induction ps arbitrary: b c)
  case Nil
  then show ?case by (simp add: segments_of_short)
next
  case (Cons p ps)
  define c' where "c' = c\<lparr>writer := writer c @ map m (butlast (segments_of (b @ p))),
              buffer := \<lparr>buf = last (segments_of (b @ p)), cap = UnencryptedDataSegmentSize\<rparr>\<rparr>"
  have w: "Write env c p = (c', length p, None)"
    unfolding Write_def c'_def
    using Write_loop_segments [of env dep m b c 0 p, OF marshal sink] Cons.prems by simp
  have ih: "Write_all env c' ps =
           (c'\<lparr>writer := writer c' @ map m (butlast (segments_of (last (segments_of (b @ p)) @ concat ps))),
              buffer := \<lparr>buf = last (segments_of (last (segments_of (b @ p)) @ concat ps)),
                         cap = UnencryptedDataSegmentSize\<rparr>\<rparr>,
            None)"
    by (rule Cons.IH) (simp_all add: c'_def Cons.prems length_last_segments_of)
  have bl: "butlast (segments_of (b @ p)) @ butlast (segments_of (last (segments_of (b @ p)) @ concat ps))
            = butlast (segments_of (b @ p @ concat ps))"
    using butlast_segments_of_append [of "b @ p" "concat ps"] by simp
  have la: "last (segments_of (last (segments_of (b @ p)) @ concat ps)) = last (segments_of (b @ p @ concat ps))"
    using last_segments_of_append [of "b @ p" "concat ps"] by simp
  show ?case
    by (simp add: w ih la) (simp add: c'_def bl [symmetric])
qed

lemma NewCrypt4GHWriter_buffer:
  "NewCrypt4GHWriter env w wk rk del = Inr c \<Longrightarrow>
   buffer c = \<lparr>buf = [], cap = UnencryptedDataSegmentSize\<rparr>"
  by (auto simp: NewCrypt4GHWriter_def Let_def Buffer_Grow_def Buffer_empty_def
        UnencryptedDataSegmentSize_def split: sum.splits)

lemma Close_ok:
  assumes "Segment_MarshalBinary env
             \<lparr>DataEncryptionParametersHeaderPackets = [dataEncryptionParametersHeaderPacket c],
              UnencryptedData = buf (buffer c)\<rparr> = Inr ms"
    and "Writer_Write env ms (writer c) = Inr w'"
  shows "Close env c = (c\<lparr>buffer := (buffer c)\<lparr>buf := []\<rparr>, writer := w'\<rparr>, None)"
  unfolding Close_def using assms by (rule flushBuffer_ok)

lemma write_stream_segments:
  fixes env :: "bytes list stream_env"
  assumes new: "NewCrypt4GHWriter env w wk rk del = Inr c0"
    and marshal: "\<And>d. Segment_MarshalBinary env
             \<lparr>DataEncryptionParametersHeaderPackets = [dataEncryptionParametersHeaderPacket c0],
              UnencryptedData = d\<rparr> = Inr (m d)"
    and sink: "\<And>d s. Writer_Write env d s = Inr (s @ [d])"
  shows "write_stream env w wk rk del ps = Inr (writer c0 @ map m (segments_of (concat ps)))"
proof -
  define c1 where "c1 = c0\<lparr>writer := writer c0 @ map m (butlast (segments_of (concat ps))),
              buffer := \<lparr>buf = last (segments_of (concat ps)), cap = UnencryptedDataSegmentSize\<rparr>\<rparr>"
  have b0: "buffer c0 = \<lparr>buf = [], cap = UnencryptedDataSegmentSize\<rparr>"
    using new by (rule NewCrypt4GHWriter_buffer)
  have wa: "Write_all env c0 ps = (c1, None)"
    unfolding c1_def
    using Write_all_segments [of env "dataEncryptionParametersHeaderPacket c0" m "[]" c0 ps, OF marshal sink] b0
    by simp
  have cl: "Close env c1 = (c1\<lparr>buffer := (buffer c1)\<lparr>buf := []\<rparr>,
               writer := writer c1 @ [m (buf (buffer c1))]\<rparr>, None)"
    by (rule Close_ok) (simp_all add: c1_def marshal sink)
  have "butlast (segments_of (concat ps)) @ [last (segments_of (concat ps))] = segments_of (concat ps)"
    by (simp add: segments_of_not_Nil)
  then have "map m (butlast (segments_of (concat ps))) @ [m (last (segments_of (concat ps)))]
       = map m (segments_of (concat ps))"
    by (metis list.simps(8,9) map_append)
  then show ?thesis
    by (simp add: write_stream_def new wa cl) (simp add: c1_def)
qed

lemma segments_of_65537:
  "length xs = 65537 \<Longrightarrow> segments_of xs = [take 65536 xs, drop 65536 xs]"
  by (subst segments_of.simps) (simp add: UnencryptedDataSegmentSize_def segments_of_short)


text \<open>
  C4. Whatever is written, in however many calls, and then closed: the underlying writer
  holds, after the header, the marshalled segments of the plaintext cut into pieces of
  65 536 bytes. Every segment but the last carries exactly 65 536 plaintext bytes; 65 536
  bytes make one segment, 65 537 bytes make two, of 65 536 bytes and of 1 byte. The
  statement is for an environment in which marshalling a segment succeeds (\<open>m\<close> is the
  marshalled form of a plaintext) and the underlying writer records what it is given.
\<close>

theorem C4_segment_sizes:
  fixes env :: "bytes list stream_env"
  assumes new: "NewCrypt4GHWriter env w wk rk del = Inr c0"
    and marshal: "\<And>d. Segment_MarshalBinary env
             \<lparr>DataEncryptionParametersHeaderPackets = [dataEncryptionParametersHeaderPacket c0],
              UnencryptedData = d\<rparr> = Inr (m d)"
    and sink: "\<And>d s. Writer_Write env d s = Inr (s @ [d])"
  shows "write_stream env w wk rk del ps = Inr (writer c0 @ map m (segments_of (concat ps)))
       \<and> (\<forall>s \<in> set (butlast (segments_of (concat ps))). length s = 65536)
       \<and> (length (concat ps) = 65536 \<longrightarrow> segments_of (concat ps) = [concat ps])
       \<and> (length (concat ps) = 65537 \<longrightarrow>
            segments_of (concat ps) = [take 65536 (concat ps), drop 65536 (concat ps)]
            \<and> length (take 65536 (concat ps)) = 65536
            \<and> length (drop 65536 (concat ps)) = 1)"
proof (intro conjI ballI impI)
  show "write_stream env w wk rk del ps = Inr (writer c0 @ map m (segments_of (concat ps)))"
    using new marshal sink by (rule write_stream_segments)
next
  fix s assume "s \<in> set (butlast (segments_of (concat ps)))"
  then show "length s = 65536"
    using butlast_segments_of_full [of s "concat ps"] by (simp add: UnencryptedDataSegmentSize_def)
next
  assume "length (concat ps) = 65536"
  then show "segments_of (concat ps) = [concat ps]"
    by (simp add: segments_of_short UnencryptedDataSegmentSize_def)
next
  assume l: "length (concat ps) = 65537"
  then show "segments_of (concat ps) = [take 65536 (concat ps), drop 65536 (concat ps)]"
    by (rule segments_of_65537)
  from l show "length (take 65536 (concat ps)) = 65536" by simp
  from l show "length (drop 65536 (concat ps)) = 1" by simp
qed

lemma demo_NewCrypt4GHWriter:
  "NewCrypt4GHWriter demo_stream_env [] [] [] None =
     Inr \<lparr>writer = [str ''crypt4gh''],
          header = \<lparr>HeaderMagicNumber = str ''crypt4gh'', HeaderVersion = Version1,
                    HeaderPacketCount = 1,
                    HeaderPackets =
                      [\<lparr>WriterPrivateKey = [], ReaderPublicKey = [],
                        HeaderEncryptionMethod = X25519ChaCha20IETFPoly1305,
                        EncryptedHeaderPacket =
                          ParametersPacket
                            \<lparr>EncryptedSegmentSize = 65564, PacketType = DataEncryptionParameters,
                             DataEncryptionMethod = ChaCha20IETFPoly1305,
                             DataKey = replicate 32 7\<rparr>\<rparr>]\<rparr>,
          dataEncryptionParametersHeaderPacket =
            \<lparr>EncryptedSegmentSize = 65564, PacketType = DataEncryptionParameters,
             DataEncryptionMethod = ChaCha20IETFPoly1305, DataKey = replicate 32 7\<rparr>,
          buffer = \<lparr>buf = [], cap = UnencryptedDataSegmentSize\<rparr>\<rparr>"
  by (simp add: NewCrypt4GHWriter_def demo_stream_env_def Let_def Buffer_Grow_def
        Buffer_empty_def copy_into_def MagicNumber_def str_def NonceSize_def Overhead_def
        KeySize_def UnencryptedDataSegmentSize_def)

theorem C4_segment_sizes_witness:
  "write_stream demo_stream_env [] [] [] None [replicate 65537 171] =
     Inr [str ''crypt4gh'',
          replicate 12 0 @ replicate 65536 171 @ replicate 16 0,
          replicate 12 0 @ [171] @ replicate 16 0]"
proof -
  let ?m = "\<lambda>d::bytes. replicate 12 0 @ d @ replicate 16 (0::byte)"
  have sink: "\<And>d s. Writer_Write demo_stream_env d s = Inr (s @ [d])"
    by (simp add: demo_stream_env_def)
  have marshal: "\<And>d. Segment_MarshalBinary demo_stream_env
         \<lparr>DataEncryptionParametersHeaderPackets =
            [dataEncryptionParametersHeaderPacket
              \<lparr>writer = [str ''crypt4gh''],
          header = \<lparr>HeaderMagicNumber = str ''crypt4gh'', HeaderVersion = Version1,
                    HeaderPacketCount = 1,
                    HeaderPackets =
                      [\<lparr>WriterPrivateKey = [], ReaderPublicKey = [],
                        HeaderEncryptionMethod = X25519ChaCha20IETFPoly1305,
                        EncryptedHeaderPacket =
                          ParametersPacket
                            \<lparr>EncryptedSegmentSize = 65564, PacketType = DataEncryptionParameters,
                             DataEncryptionMethod = ChaCha20IETFPoly1305,
                             DataKey = replicate 32 7\<rparr>\<rparr>]\<rparr>,
          dataEncryptionParametersHeaderPacket =
            \<lparr>EncryptedSegmentSize = 65564, PacketType = DataEncryptionParameters,
             DataEncryptionMethod = ChaCha20IETFPoly1305, DataKey = replicate 32 7\<rparr>,
          buffer = \<lparr>buf = [], cap = UnencryptedDataSegmentSize\<rparr>\<rparr>],
          UnencryptedData = d\<rparr> = Inr (?m d)"
    by (simp add: demo_stream_env_def NonceSize_def Overhead_def)
  from C4_segment_sizes [OF demo_NewCrypt4GHWriter marshal sink, of "[replicate 65537 171]"]
  show ?thesis by simp
qed

text \<open>
  C5, as the code has it. \<open>Close\<close> is \<open>flushBuffer\<close>, which has no test of the buffer:
  whenever marshalling and writing succeed, \<open>Close\<close> writes one segment that carries
  exactly the buffered bytes, whatever their number, and leaves the buffer empty. So a
  non-empty buffer gives a final segment with those bytes, and an empty buffer gives a
  segment with no plaintext.
\<close>

theorem C5_Close_writes_the_buffer:
  assumes "Segment_MarshalBinary env
             \<lparr>DataEncryptionParametersHeaderPackets = [dataEncryptionParametersHeaderPacket c],
              UnencryptedData = buf (buffer c)\<rparr> = Inr ms"
    and "Writer_Write env ms (writer c) = Inr w'"
  shows "Close env c = (c\<lparr>buffer := (buffer c)\<lparr>buf := []\<rparr>, writer := w'\<rparr>, None)"
  unfolding Close_def using assms by (rule flushBuffer_ok)

theorem C5_Close_writes_the_buffer_witness:
  "Close demo_stream_env demo_writer =
     (demo_writer\<lparr>buffer := \<lparr>buf = [], cap = UnencryptedDataSegmentSize\<rparr>,
                  writer := [str ''crypt4gh'', replicate 12 0 @ [1, 2, 3] @ replicate 16 0]\<rparr>,
      None)"
proof -
  have a: "Segment_MarshalBinary demo_stream_env
             \<lparr>DataEncryptionParametersHeaderPackets =
                [dataEncryptionParametersHeaderPacket demo_writer],
              UnencryptedData = buf (buffer demo_writer)\<rparr>
           = Inr (replicate 12 0 @ [1, 2, 3] @ replicate 16 0)"
    by (simp add: demo_stream_env_def demo_writer_def NonceSize_def Overhead_def)
  have b: "Writer_Write demo_stream_env (replicate 12 0 @ [1, 2, 3] @ replicate 16 0)
             (writer demo_writer)
           = Inr [str ''crypt4gh'', replicate 12 0 @ [1, 2, 3] @ replicate 16 0]"
    by (simp add: demo_stream_env_def demo_writer_def)
  from C5_Close_writes_the_buffer [OF a b] show ?thesis
    by (simp add: demo_writer_def)
qed

text \<open>
  C5 as stated fails: with no byte written at all, the session ends with the header and
  one more slice in the underlying writer, the segment of the empty plaintext (a nonce
  and a tag around nothing), where the claim has the header alone.
\<close>

theorem C5_empty_plaintext_counterexample:
  "write_stream demo_stream_env [] [] [] None [] =
     Inr [str ''crypt4gh'', replicate 12 0 @ [] @ replicate 16 0]
   \<and> write_stream demo_stream_env [] [] [] None [] \<noteq> Inr [str ''crypt4gh'']"
  by (simp add: write_stream_def NewCrypt4GHWriter_def demo_stream_env_def Let_def Close_def
       flushBuffer_def Buffer_Bytes_def Buffer_Reset_def Buffer_Grow_def Buffer_empty_def
       copy_into_def MagicNumber_def str_def NonceSize_def Overhead_def KeySize_def
       UnencryptedDataSegmentSize_def)

section \<open>The key codec: reading, writing and deriving\<close>

lemma BigEndian_Uint16_PutUint16: "BigEndian_Uint16 (BigEndian_PutUint16 v) = v"
  unfolding BigEndian_Uint16_def BigEndian_PutUint16_def
  by (rule bit_word_eqI) (auto simp: bit_simps)

lemma binary_Read_bytes_append:
  "binary_Read_bytes (length x) (x @ rest) = Inr (x, rest)"
  by (simp add: binary_Read_bytes_def)

lemma binary_Read_uint16_Put:
  "binary_Read_uint16 (BigEndian_PutUint16 v @ rest) = Inr (v, rest)"
proof -
  have "binary_Read_bytes 2 (BigEndian_PutUint16 v @ rest) = Inr (BigEndian_PutUint16 v, rest)"
    by (simp add: binary_Read_bytes_def BigEndian_PutUint16_def)
  then show ?thesis by (simp add: binary_Read_uint16_def BigEndian_Uint16_PutUint16)
qed

lemma unat_of_nat_u16: "n < 65536 \<Longrightarrow> unat (of_nat n :: 16 word) = n"
  by (simp add: unat_of_nat)

lemma binary_Read_uint32_append:
  "length r = 4 \<Longrightarrow> binary_Read_uint32 (r @ rest) = Inr (BigEndian_Uint32 r, rest)"
  by (simp add: binary_Read_uint32_def binary_Read_bytes_def)

lemma read_length_prefixed:
  assumes "length x < 65536"
  shows "binary_Read_uint16 (length_prefixed x @ rest) = Inr (of_nat (length x), x @ rest)"
    and "binary_Read_bytes (unat (of_nat (length x) :: 16 word)) (x @ rest) = Inr (x, rest)"
  using assms
  by (simp_all add: length_prefixed_def binary_Read_uint16_Put unat_of_nat_u16
        binary_Read_bytes_append)

lemma unat_u16_minus_4:
  assumes "4 \<le> n" "n < 65536"
  shows "unat (of_nat n - 4 :: 16 word) = n - 4"
proof -
  have "unat (of_nat n :: 16 word) = n" using assms by (simp add: unat_of_nat_u16)
  moreover have "(4 :: 16 word) \<le> of_nat n"
    using assms by (simp add: word_le_nat_alt unat_of_nat_u16)
  ultimately show ?thesis by (simp add: unat_sub)
qed


lemma read_unknown_kdf:
  assumes "length name < 65536" "KDFS env name = None"
  shows "readCrypt4GHPrivateKey env (magic @ length_prefixed name @ rest) pp
         = Returned (zero_key, Some (UnsupportedKDF name))"
  using assms
  by (simp add: readCrypt4GHPrivateKey_def read_length_prefixed)

lemma read_password_required:
  assumes "length name < 65536" "KDFS env name = Some f" "name \<noteq> none"
  shows "readCrypt4GHPrivateKey env (magic @ length_prefixed name @ rest) None
         = Returned (zero_key, Some PasswordRequired)"
  using assms
  by (simp add: readCrypt4GHPrivateKey_def read_length_prefixed none_def)

lemma read_length_prefixed_end:
  assumes "length x < 65536"
  shows "binary_Read_uint16 (length_prefixed x) = Inr (of_nat (length x), x)"
    and "binary_Read_bytes (unat (of_nat (length x) :: 16 word)) x = Inr (x, [])"
  using read_length_prefixed [OF assms, of "[]"] by simp_all

lemma none_length: "length none < 65536"
  by (simp add: none_def str_def)

lemma read_none_fields:
  assumes "KDFS env none = Some f" "length cipher < 65536" "length payload < 65536"
  shows "readCrypt4GHPrivateKey env (crypt4gh_key_body none None cipher payload) pp
         = (if cipher \<noteq> none then Returned (zero_key, Some MismatchedKdfCipher)
            else Returned (copy_into KeySize payload, None))"
  using assms
  by (simp add: readCrypt4GHPrivateKey_def crypt4gh_key_body_def none_length
        read_length_prefixed read_length_prefixed_end none_def [symmetric])

lemma read_rounds_and_salt:
  assumes "4 \<le> length rs" "length rs < 65536"
  shows "binary_Read_uint32 (rs @ rest) = Inr (BigEndian_Uint32 (take 4 rs), drop 4 rs @ rest)"
    and "binary_Read_bytes (unat (of_nat (length rs) - 4 :: 16 word)) (drop 4 rs @ rest)
         = Inr (drop 4 rs, rest)"
  using assms
  by (simp_all add: binary_Read_uint32_def binary_Read_bytes_def unat_u16_minus_4)

lemma read_kdf_fields:
  assumes "KDFS env name = Some kdf" "name \<noteq> none" "length name < 65536"
    and "4 \<le> length rs" "length rs < 65536"
    and "length cipher < 65536" "length payload < 65536"
  shows "readCrypt4GHPrivateKey env
           (crypt4gh_key_body name (Some rs) cipher payload) (Some w)
         = (if cipher \<noteq> supportedCipherName
            then Returned (zero_key, Some (UnsupportedCipher cipher))
            else
              (case kdf (unat (BigEndian_Uint32 (take 4 rs))) w (drop 4 rs) of
                 Inl err \<Rightarrow> Returned (zero_key, Some err)
               | Inr derivedKey \<Rightarrow>
              (case chacha20poly1305_New derivedKey of
                 Inl err \<Rightarrow> Returned (zero_key, Some err)
               | Inr aead \<Rightarrow>
                   if length payload < NonceSize then Panic SliceBounds
                   else
                     (case aead_Open env aead (take NonceSize payload) (drop NonceSize payload) of
                        Inl err \<Rightarrow> Returned (zero_key, Some err)
                      | Inr decryptedPrivateKey \<Rightarrow>
                          Returned (copy_into KeySize decryptedPrivateKey, None)))))"
  using assms
  by (simp add: readCrypt4GHPrivateKey_def crypt4gh_key_body_def
        read_length_prefixed read_length_prefixed_end none_def [symmetric]
        read_rounds_and_salt slice_bytes_def)


lemma length_copy_into: "length (copy_into n src) = n"
  by (simp add: copy_into_def)







lemma scrypt_name: "str ''scrypt'' \<noteq> none" "length (str ''scrypt'') < 65536"
  by (simp_all add: none_def str_def)

lemma supportedCipherName_length: "length supportedCipherName < 65536"
  by (simp add: supportedCipherName_def str_def)









lemma demo_KDFS_scrypt: "KDFS demo_key_env (str ''scrypt'') = Some demo_scrypt"
  by (simp add: demo_key_env_def demo_KDFS_def)




text \<open>
  C8. The errors of \<open>readCrypt4GHPrivateKey\<close> on a body laid out as the spec has it,
  with every length below 65 536. A KDF name that the registry lacks: \<open>UnsupportedKDF\<close>
  with the name. A KDF in the registry other than \<open>none\<close> and a nil passphrase:
  \<open>PasswordRequired\<close>. The KDF \<open>none\<close> (in the registry) and a cipher name other than
  \<open>none\<close>: \<open>MismatchedKdfCipher\<close>. A KDF in the registry other than \<open>none\<close>, a
  passphrase, and a cipher name other than \<open>chacha20_poly1305\<close>: \<open>UnsupportedCipher\<close>
  with the name. In each case the key returned is the zero key, 32 zero bytes.
\<close>

theorem C8_crypt4gh_key_errors:
  "(length name1 < 65536 \<and> KDFS env name1 = None \<longrightarrow>
      readCrypt4GHPrivateKey env (magic @ length_prefixed name1 @ rest1) pp1
        = Returned (zero_key, Some (UnsupportedKDF name1)))
   \<and> (length name2 < 65536 \<and> KDFS env name2 = Some kdf2 \<and> name2 \<noteq> none \<longrightarrow>
      readCrypt4GHPrivateKey env (magic @ length_prefixed name2 @ rest2) None
        = Returned (zero_key, Some PasswordRequired))
   \<and> (KDFS env none = Some kdf3 \<and> length cipher3 < 65536 \<and> length payload3 < 65536
        \<and> cipher3 \<noteq> none \<longrightarrow>
      readCrypt4GHPrivateKey env (crypt4gh_key_body none None cipher3 payload3) pp3
        = Returned (zero_key, Some MismatchedKdfCipher))
   \<and> (KDFS env name4 = Some kdf4 \<and> name4 \<noteq> none \<and> length name4 < 65536
        \<and> 4 \<le> length rs4 \<and> length rs4 < 65536
        \<and> length cipher4 < 65536 \<and> length payload4 < 65536
        \<and> cipher4 \<noteq> supportedCipherName \<longrightarrow>
      readCrypt4GHPrivateKey env (crypt4gh_key_body name4 (Some rs4) cipher4 payload4) (Some w4)
        = Returned (zero_key, Some (UnsupportedCipher cipher4)))
   \<and> zero_key = replicate 32 0"
proof (intro conjI impI)
  assume "length name1 < 65536 \<and> KDFS env name1 = None"
  then show "readCrypt4GHPrivateKey env (magic @ length_prefixed name1 @ rest1) pp1
        = Returned (zero_key, Some (UnsupportedKDF name1))"
    by (simp add: read_unknown_kdf)
next
  assume "length name2 < 65536 \<and> KDFS env name2 = Some kdf2 \<and> name2 \<noteq> none"
  then show "readCrypt4GHPrivateKey env (magic @ length_prefixed name2 @ rest2) None
        = Returned (zero_key, Some PasswordRequired)"
    using read_password_required [of name2 env kdf2 rest2] by simp
next
  assume "KDFS env none = Some kdf3 \<and> length cipher3 < 65536 \<and> length payload3 < 65536
        \<and> cipher3 \<noteq> none"
  then show "readCrypt4GHPrivateKey env (crypt4gh_key_body none None cipher3 payload3) pp3
        = Returned (zero_key, Some MismatchedKdfCipher)"
    using read_none_fields [of env kdf3 cipher3 payload3 pp3] by simp
next
  assume "KDFS env name4 = Some kdf4 \<and> name4 \<noteq> none \<and> length name4 < 65536
        \<and> 4 \<le> length rs4 \<and> length rs4 < 65536
        \<and> length cipher4 < 65536 \<and> length payload4 < 65536
        \<and> cipher4 \<noteq> supportedCipherName"
  then show "readCrypt4GHPrivateKey env (crypt4gh_key_body name4 (Some rs4) cipher4 payload4) (Some w4)
        = Returned (zero_key, Some (UnsupportedCipher cipher4))"
    using read_kdf_fields [of env name4 kdf4 rs4 cipher4 payload4 w4] by simp
next
  show "zero_key = replicate 32 0" by (simp add: zero_key_def KeySize_def)
qed

lemma demo_KDFS_none: "KDFS demo_key_env none = Some demo_scrypt"
  by (simp add: demo_key_env_def demo_KDFS_def none_def str_def)

lemma demo_KDFS_unknown: "KDFS demo_key_env (str ''argon2'') = None"
  by (simp add: demo_key_env_def demo_KDFS_def str_def)

theorem C8_crypt4gh_key_errors_witness:
  "readCrypt4GHPrivateKey demo_key_env (magic @ length_prefixed (str ''argon2'') @ []) None
        = Returned (zero_key, Some (UnsupportedKDF (str ''argon2'')))
   \<and> readCrypt4GHPrivateKey demo_key_env (magic @ length_prefixed (str ''scrypt'') @ []) None
        = Returned (zero_key, Some PasswordRequired)
   \<and> readCrypt4GHPrivateKey demo_key_env
        (crypt4gh_key_body none None supportedCipherName (replicate 32 1)) None
        = Returned (zero_key, Some MismatchedKdfCipher)
   \<and> readCrypt4GHPrivateKey demo_key_env
        (crypt4gh_key_body (str ''scrypt'') (Some (replicate 20 0)) none (replicate 60 1))
        (Some (str ''secret''))
        = Returned (zero_key, Some (UnsupportedCipher none))
   \<and> zero_key = replicate 32 0"
  using C8_crypt4gh_key_errors [of "str ''argon2''" demo_key_env "[]" None
               "str ''scrypt''" demo_scrypt "[]"
               demo_scrypt supportedCipherName "replicate 32 1" None
               "str ''scrypt''" demo_scrypt "replicate 20 0" none "replicate 60 1"
               "str ''secret''"]
  by (simp add: demo_KDFS_none demo_KDFS_unknown demo_KDFS_scrypt scrypt_name)
     (simp add: none_def supportedCipherName_def str_def)

text \<open>
  C10. With KDF \<open>none\<close> and cipher \<open>none\<close>, a payload of any length is accepted and
  copied into the 32-byte result: a shorter payload is followed by zero bytes, a longer
  one is cut to its first 32 bytes. The same holds for the encrypted case: whatever the
  AEAD opens, of any length, is copied into the 32-byte result.
\<close>

theorem C10_key_length_not_validated:
  "(KDFS env none = Some kdf1 \<and> length payload < 65536 \<longrightarrow>
      readCrypt4GHPrivateKey env (crypt4gh_key_body none None none payload) pp
        = Returned (copy_into KeySize payload, None))
   \<and> length (copy_into KeySize payload) = 32
   \<and> (length payload < 32 \<longrightarrow>
        copy_into KeySize payload = payload @ replicate (32 - length payload) 0)
   \<and> (32 < length payload \<longrightarrow> copy_into KeySize payload = take 32 payload)
   \<and> (KDFS env name = Some kdf \<and> name \<noteq> none \<and> length name < 65536
        \<and> 4 \<le> length rs \<and> length rs < 65536
        \<and> NonceSize \<le> length sealed \<and> length sealed < 65536
        \<and> kdf (unat (BigEndian_Uint32 (take 4 rs))) w (drop 4 rs) = Inr k
        \<and> length k = KeySize
        \<and> aead_Open env k (take NonceSize sealed) (drop NonceSize sealed) = Inr d \<longrightarrow>
      readCrypt4GHPrivateKey env
          (crypt4gh_key_body name (Some rs) supportedCipherName sealed) (Some w)
        = Returned (copy_into KeySize d, None))"
proof (intro conjI impI)
  assume "KDFS env none = Some kdf1 \<and> length payload < 65536"
  then show "readCrypt4GHPrivateKey env (crypt4gh_key_body none None none payload) pp
        = Returned (copy_into KeySize payload, None)"
    using read_none_fields [of env kdf1 none payload pp] by (simp add: none_length)
next
  show "length (copy_into KeySize payload) = 32"
    by (simp add: length_copy_into KeySize_def)
next
  assume "length payload < 32"
  then show "copy_into KeySize payload = payload @ replicate (32 - length payload) 0"
    by (simp add: copy_into_def KeySize_def)
next
  assume "32 < length payload"
  then show "copy_into KeySize payload = take 32 payload"
    by (simp add: copy_into_def KeySize_def)
next
  assume a: "KDFS env name = Some kdf \<and> name \<noteq> none \<and> length name < 65536
        \<and> 4 \<le> length rs \<and> length rs < 65536
        \<and> NonceSize \<le> length sealed \<and> length sealed < 65536
        \<and> kdf (unat (BigEndian_Uint32 (take 4 rs))) w (drop 4 rs) = Inr k
        \<and> length k = KeySize
        \<and> aead_Open env k (take NonceSize sealed) (drop NonceSize sealed) = Inr d"
  then show "readCrypt4GHPrivateKey env
          (crypt4gh_key_body name (Some rs) supportedCipherName sealed) (Some w)
        = Returned (copy_into KeySize d, None)"
    using read_kdf_fields [of env name kdf rs supportedCipherName sealed w]
    by (simp add: supportedCipherName_length chacha20poly1305_New_def)
qed


theorem C10_key_length_not_validated_witness:
  "readCrypt4GHPrivateKey demo_key_env (crypt4gh_key_body none None none [1, 2, 3]) None
     = Returned ([1, 2, 3] @ replicate 29 0, None)
   \<and> readCrypt4GHPrivateKey demo_key_env
       (crypt4gh_key_body (str ''scrypt'') (Some (replicate 20 0)) supportedCipherName
          (replicate 12 9 @ replicate 5 7 @ str ''pw'' @ replicate 14 0))
       (Some (str ''pw''))
     = Returned (replicate 5 7 @ replicate 27 0, None)"
proof -
  have k: "demo_scrypt (unat (BigEndian_Uint32 (take 4 (replicate 20 0)))) (str ''pw'')
             (drop 4 (replicate 20 0)) = Inr (str ''pw'' @ replicate 30 0)"
    by (simp add: demo_scrypt_def copy_into_def str_def replicate_add [symmetric])
  have o: "aead_Open demo_key_env (str ''pw'' @ replicate 30 0)
             (take NonceSize (replicate 12 9 @ replicate 5 7 @ str ''pw'' @ replicate 14 0))
             (drop NonceSize (replicate 12 9 @ replicate 5 7 @ str ''pw'' @ replicate 14 0))
           = Inr (replicate 5 7)"
    by (simp add: demo_key_env_def demo_Open_def NonceSize_def copy_into_def str_def)
  have n: "NonceSize \<le> length (replicate 12 (9::byte) @ replicate 5 7 @ str ''pw'' @ replicate 14 0)"
          "length (replicate 12 (9::byte) @ replicate 5 7 @ str ''pw'' @ replicate 14 0) < 65536"
          "length (str ''pw'' @ replicate 30 (0::byte)) = KeySize"
    by (simp_all add: NonceSize_def KeySize_def str_def)
  note c = C10_key_length_not_validated [of demo_key_env demo_scrypt "[1, 2, 3]" None
              "str ''scrypt''" demo_scrypt "replicate 20 0"
              "replicate 12 9 @ replicate 5 7 @ str ''pw'' @ replicate 14 0"
              "str ''pw''" "str ''pw'' @ replicate 30 0" "replicate 5 7"]
  have a: "readCrypt4GHPrivateKey demo_key_env (crypt4gh_key_body none None none [1, 2, 3]) None
     = Returned (copy_into KeySize [1, 2, 3], None)"
    using c by (simp add: demo_KDFS_none)
  have b: "readCrypt4GHPrivateKey demo_key_env
       (crypt4gh_key_body (str ''scrypt'') (Some (replicate 20 0)) supportedCipherName
          (replicate 12 9 @ replicate 5 7 @ str ''pw'' @ replicate 14 0))
       (Some (str ''pw''))
     = Returned (copy_into KeySize (replicate 5 7), None)"
    using c [THEN conjunct2, THEN conjunct2, THEN conjunct2, THEN conjunct2] n k o
    by (simp add: demo_KDFS_scrypt scrypt_name)
  show ?thesis
    by (simp add: a b) (simp add: KeySize_def copy_into_def)
qed









text \<open>
  C6. What \<open>ReadPrivateKey\<close> does on input that the ssh package does not parse.
  When the input holds no PEM block, \<open>pem.Decode\<close> returns nil and the read of
  \<open>block.Bytes\<close> panics. When the PEM body is not DER of the expected structure and the
  backing array of the body has fewer than 7 bytes, \<open>block.Bytes[:7]\<close> panics. Only when
  the body has at least 7 bytes that are not the magic does the function return the zero
  key and \<open>UnsupportedPrivateKeyFormat\<close>. So the claim, which has the error in all three
  cases, holds in the third only: the code has the final return that the claim describes,
  and lacks the two tests that would lead to it.
\<close>

theorem C6_ReadPrivateKey_unsupported_input:
  assumes ssh: "\<exists>e. (case pp of
                       None \<Rightarrow> ssh_ParseRawPrivateKey env bs
                     | Some w \<Rightarrow> ssh_ParseRawPrivateKeyWithPassphrase env bs w) = Inl e"
  shows "(pem_Decode env bs = None \<longrightarrow> ReadPrivateKey env (Inr bs) pp = Panic NilDereference)
       \<and> (pem_Decode env bs = Some blk
            \<and> (\<exists>e. asn1_Unmarshal_PrivateKey env (Bytes blk) = Inl e)
            \<and> length (Bytes blk) + length (Bytes_spare blk) < 7 \<longrightarrow>
          ReadPrivateKey env (Inr bs) pp = Panic SliceBounds)
       \<and> (pem_Decode env bs = Some blk
            \<and> (\<exists>e. asn1_Unmarshal_PrivateKey env (Bytes blk) = Inl e)
            \<and> 7 \<le> length (Bytes blk) \<and> take 7 (Bytes blk) \<noteq> magic \<longrightarrow>
          ReadPrivateKey env (Inr bs) pp = Returned (zero_key, Some UnsupportedPrivateKeyFormat))"
proof -
  from ssh obtain e where
    e: "(case pp of None \<Rightarrow> ssh_ParseRawPrivateKey env bs
         | Some w \<Rightarrow> ssh_ParseRawPrivateKeyWithPassphrase env bs w) = Inl e" ..
  show ?thesis
    unfolding ReadPrivateKey_def
    by (auto simp: e Let_def)
qed

theorem C6_ReadPrivateKey_unsupported_input_witness:
  "ReadPrivateKey demo_key_env (Inr (str ''hello'')) None = Panic NilDereference
   \<and> ReadPrivateKey demo_key_env (Inr (str ''-----c4gh'')) None = Panic SliceBounds
   \<and> ReadPrivateKey demo_key_env (Inr (str ''-----not a key'')) None
       = Returned (zero_key, Some UnsupportedPrivateKeyFormat)"
proof -
  have s: "\<And>bs. \<exists>e. (case None of None \<Rightarrow> ssh_ParseRawPrivateKey demo_key_env bs
                     | Some w \<Rightarrow> ssh_ParseRawPrivateKeyWithPassphrase demo_key_env bs w) = Inl e"
    by (simp add: demo_key_env_def)
  have 1: "ReadPrivateKey demo_key_env (Inr (str ''hello'')) None = Panic NilDereference"
    using C6_ReadPrivateKey_unsupported_input [OF s, of "str ''hello''", THEN conjunct1]
    by (simp add: demo_key_env_def demo_pem_Decode_def str_def)
  have 2: "ReadPrivateKey demo_key_env (Inr (str ''-----c4gh'')) None = Panic SliceBounds"
    using C6_ReadPrivateKey_unsupported_input [OF s, of "str ''-----c4gh''"
               "\<lparr>Type = [], Headers = [], Bytes = str ''c4gh'', Bytes_spare = []\<rparr>",
             THEN conjunct2, THEN conjunct1]
    by (simp add: demo_key_env_def demo_pem_Decode_def demo_asn1_Unmarshal_PrivateKey_def
          str_def)
  have 3: "ReadPrivateKey demo_key_env (Inr (str ''-----not a key'')) None
       = Returned (zero_key, Some UnsupportedPrivateKeyFormat)"
    using C6_ReadPrivateKey_unsupported_input [OF s, of "str ''-----not a key''"
               "\<lparr>Type = [], Headers = [], Bytes = str ''not a key'', Bytes_spare = []\<rparr>",
             THEN conjunct2, THEN conjunct2]
    by (simp add: demo_key_env_def demo_pem_Decode_def demo_asn1_Unmarshal_PrivateKey_def
          str_def magic_def)
  from 1 2 3 show ?thesis by simp
qed

text \<open>
  C7, for a PEM body of at least 32 bytes. When the input is no authorized_keys entry,
  decodes as PEM, and the body is either not DER of a SubjectPublicKeyInfo or names an
  algorithm that is neither Ed25519 nor X25519, \<open>ReadPublicKey\<close> returns the trailing
  32 bytes of the body with a nil error. No path of the function returns an error for an
  unsupported format.
\<close>

theorem C7_ReadPublicKey_raw_fallback:
  assumes ssh: "\<exists>e. ssh_ParseAuthorizedKey env bs = Inl e"
    and pem: "pem_Decode env bs = Some blk"
    and long: "KeySize \<le> length (Bytes blk)"
    and other: "(\<exists>e. asn1_Unmarshal_PublicKey env (Bytes blk) = Inl e)
                \<or> (\<exists>k. asn1_Unmarshal_PublicKey env (Bytes blk) = Inr k
                       \<and> Algorithm (PublicKeyAlgorithm k) \<noteq> ed25519Algorithm
                       \<and> Algorithm (PublicKeyAlgorithm k) \<noteq> x25519Algorithm)"
  shows "ReadPublicKey env (Inr bs)
         = Returned (drop (length (Bytes blk) - 32) (Bytes blk), None)"
proof -
  from ssh obtain e where e: "ssh_ParseAuthorizedKey env bs = Inl e" ..
  have c: "copy_into KeySize (drop (length (Bytes blk) - KeySize) (Bytes blk))
           = drop (length (Bytes blk) - 32) (Bytes blk)"
    using long by (simp add: copy_into_def KeySize_def)
  from other show ?thesis
    unfolding ReadPublicKey_def
    using long by (auto simp: e pem Let_def c)
qed

theorem C7_ReadPublicKey_raw_fallback_witness:
  "ReadPublicKey demo_key_env
     (Inr (str ''-----'' @ [48, 42, 48, 5, 6, 3, 43, 101, 111, 3, 33, 0] @ replicate 32 42))
   = Returned (replicate 32 42, None)"
proof -
  let ?body = "[48, 42, 48, 5, 6, 3, 43, 101, 111, 3, 33, 0] @ replicate 32 (42::byte)"
  let ?blk = "\<lparr>Type = [], Headers = [], Bytes = ?body, Bytes_spare = []\<rparr>"
  have ssh: "\<exists>e. ssh_ParseAuthorizedKey demo_key_env (str ''-----'' @ ?body) = Inl e"
    by (simp add: demo_key_env_def)
  have pem: "pem_Decode demo_key_env (str ''-----'' @ ?body) = Some ?blk"
    by (simp add: demo_key_env_def demo_pem_Decode_def str_def)
  have long: "KeySize \<le> length (Bytes ?blk)" by (simp add: KeySize_def)
  have other: "(\<exists>e. asn1_Unmarshal_PublicKey demo_key_env (Bytes ?blk) = Inl e)
                \<or> (\<exists>k. asn1_Unmarshal_PublicKey demo_key_env (Bytes ?blk) = Inr k
                       \<and> Algorithm (PublicKeyAlgorithm k) \<noteq> ed25519Algorithm
                       \<and> Algorithm (PublicKeyAlgorithm k) \<noteq> x25519Algorithm)"
    by (simp add: demo_key_env_def demo_asn1_Unmarshal_PublicKey_def ed25519Algorithm_def
          x25519Algorithm_def)
  from C7_ReadPublicKey_raw_fallback [OF ssh pem long other] show ?thesis by simp
qed

text \<open>
  C7 as stated fails on a shorter body: with 3 bytes in the PEM body, the slice of the
  trailing 32 bytes is out of range and the function panics.
\<close>

theorem C7_short_body_counterexample:
  "ReadPublicKey demo_key_env (Inr (str ''-----'' @ [1, 2, 3])) = Panic SliceBounds"
  by (simp add: ReadPublicKey_def demo_key_env_def demo_pem_Decode_def
        demo_asn1_Unmarshal_PublicKey_def str_def KeySize_def Let_def)

text \<open>
  The panic does not depend on what the DER parser makes of the body, nor on the
  stand-ins: all three branches of \<open>ReadPublicKey\<close> slice the trailing 32 bytes.
  Likewise \<open>ReadPrivateKey\<close> panics on any key that the ssh package parses and that is
  not an Ed25519 key, such as an RSA key.
\<close>

lemma ReadPublicKey_short_body:
  assumes "\<exists>e. ssh_ParseAuthorizedKey env bs = Inl e"
    and "pem_Decode env bs = Some blk"
    and "length (Bytes blk) < KeySize"
  shows "ReadPublicKey env (Inr bs) = Panic SliceBounds"
proof -
  from assms(1) obtain e where e: "ssh_ParseAuthorizedKey env bs = Inl e" ..
  show ?thesis
    unfolding ReadPublicKey_def using assms(2,3) by (simp add: e Let_def)
qed

lemma ReadPrivateKey_other_ssh_key:
  assumes "ssh_ParseRawPrivateKey env bs = Inr OtherKey"
  shows "ReadPrivateKey env (Inr bs) None = Panic InterfaceConversion"
  unfolding ReadPrivateKey_def using assms by simp

text \<open>
  C1. Whenever \<open>X25519 priv pub\<close> succeeds with \<open>dh\<close>, the reader's shared key is the
  first 32 bytes of BLAKE2b-512 over \<open>dh\<close>, the public key derived from \<open>priv\<close> and
  \<open>pub\<close>, in this order, and the writer's shared key is the same with the two public
  keys exchanged. X25519, the base-point multiplication and the hash are those of the
  environment.
\<close>

theorem C1_shared_key_derivation:
  assumes "X25519 env priv pub = Inr dh"
  shows "GenerateReaderSharedKey env priv pub =
          Inr (take 32 (blake2b_Sum512 env (dh @ DerivePublicKey env priv @ pub)))
       \<and> GenerateWriterSharedKey env priv pub =
          Inr (take 32 (blake2b_Sum512 env (dh @ pub @ DerivePublicKey env priv)))"
  using assms
  by (simp add: GenerateReaderSharedKey_def GenerateWriterSharedKey_def generateSharedKey_def
        KeySize_def Let_def)

lemma demo_X25519_1_2: "X25519 demo_key_env (replicate 32 1) (replicate 32 2) = Inr (replicate 32 3)"
  by (simp add: demo_key_env_def demo_X25519_def)

lemma demo_X25519_2_1: "X25519 demo_key_env (replicate 32 2) (replicate 32 1) = Inr (replicate 32 3)"
  by (simp add: demo_key_env_def demo_X25519_def)

lemma demo_DerivePublicKey: "DerivePublicKey demo_key_env k = k"
  by (simp add: demo_key_env_def DerivePublicKey_def)

theorem C1_shared_key_derivation_witness:
  "GenerateReaderSharedKey demo_key_env (replicate 32 1) (replicate 32 2) =
          Inr (replicate 32 3)
   \<and> GenerateWriterSharedKey demo_key_env (replicate 32 1) (replicate 32 2) =
          Inr (replicate 32 3)"
  using C1_shared_key_derivation [OF demo_X25519_1_2]
  by (simp add: demo_DerivePublicKey) (simp add: demo_key_env_def copy_into_def)

text \<open>
  C2. The reader with \<open>r_priv\<close> and the writer's public key, and the writer with
  \<open>w_priv\<close> and the reader's public key, derive the same key: both hash the shared
  secret, the reader's public key and the writer's public key, in this order. The
  premises are that both key agreements succeed and yield the same secret \<open>dh\<close>, which
  is the Diffie-Hellman property of X25519, a property of the curve25519 package and not
  of this file.
\<close>

theorem C2_shared_keys_agree:
  assumes "X25519 env r_priv (DerivePublicKey env w_priv) = Inr dh"
      and "X25519 env w_priv (DerivePublicKey env r_priv) = Inr dh"
  shows "GenerateReaderSharedKey env r_priv (DerivePublicKey env w_priv) =
           Inr (take 32 (blake2b_Sum512 env
                  (dh @ DerivePublicKey env r_priv @ DerivePublicKey env w_priv)))
       \<and> GenerateWriterSharedKey env w_priv (DerivePublicKey env r_priv) =
           Inr (take 32 (blake2b_Sum512 env
                  (dh @ DerivePublicKey env r_priv @ DerivePublicKey env w_priv)))"
  using assms
  by (simp add: GenerateReaderSharedKey_def GenerateWriterSharedKey_def generateSharedKey_def
        KeySize_def Let_def)

theorem C2_shared_keys_agree_witness:
  "GenerateReaderSharedKey demo_key_env (replicate 32 1) (replicate 32 2) =
     GenerateWriterSharedKey demo_key_env (replicate 32 2) (replicate 32 1)"
  using C2_shared_keys_agree [of demo_key_env "replicate 32 1" "replicate 32 2" "replicate 32 3"]
  by (simp add: demo_DerivePublicKey demo_X25519_1_2 demo_X25519_2_1)

end
